theory Spec2Isabelle
  imports Main
begin

section \<open>The NL-to-SQL playground: \<open>frontend/src/App.tsx\<close>\<close>

text \<open>
  The repository is one React component, \<open>App\<close>. Its behaviour has two halves: the
  asynchronous handler \<open>handleSubmit\<close> (lines 19-51), which drives the request
  lifecycle through the hooks \<open>loading\<close>, \<open>error\<close> and \<open>response\<close>, and the JSX of
  lines 53-154, which projects that state into the page. Both are embedded below as
  pure functions on an explicit state record; the suspension point of \<open>handleSubmit\<close>
  (the \<open>await fetch\<close>) splits it into the part that runs at submit and the
  continuation that runs when the promise settles.
\<close>

subsection \<open>JavaScript values\<close>

text \<open>The decimal digits of a natural number.\<close>

fun string_of_nat :: "nat \<Rightarrow> string" where
  "string_of_nat n =
     (if n < 10 then [''0123456789'' ! n]
      else string_of_nat (n div 10) @ [''0123456789'' ! (n mod 10)])"

declare string_of_nat.simps [simp del]

text \<open>
  A number is kept as the data that \<open>Number::toString\<close> is defined from: its sign and
  the integers \<open>s\<close> and \<open>n\<close> with value \<open>s \<times> 10^(n - k)\<close>, where \<open>k\<close> is the count of
  digits of \<open>s\<close> and \<open>s\<close> is the shortest digit string that denotes the number (so it
  ends in no zero). Zero, of either sign, is \<open>s = 0\<close>. Thus \<open>1\<close> is \<open>NumFinite False 1 1\<close>,
  \<open>1.5\<close> is \<open>NumFinite False 15 1\<close>, and \<open>10^21\<close> is \<open>NumFinite False 1 22\<close>.
\<close>

datatype js_number = NumNaN | NumInfinity bool | NumFinite bool nat int

text \<open>
  \<open>Number::toString\<close> for radix 10, on a number that is neither zero, negative, \<open>NaN\<close>
  nor infinite: plain digits when \<open>-5 \<le> n \<le> 21\<close>, exponent notation otherwise.
\<close>

definition digits_toString :: "nat \<Rightarrow> int \<Rightarrow> string" where
  "digits_toString s n =
     (let ds = string_of_nat s; k = int (length ds) in
      if - 6 < n \<and> n \<le> 21 then
        (if k \<le> n then ds @ replicate (nat (n - k)) (CHR ''0'')
         else if 0 < n then take (nat n) ds @ ''.'' @ drop (nat n) ds
         else ''0.'' @ replicate (nat (- n)) (CHR ''0'') @ ds)
      else
        (let e = n - 1;
             es = (if e < 0 then ''-'' else ''+'') @ string_of_nat (nat \<bar>e\<bar>)
         in if k = 1 then ds @ ''e'' @ es
            else take 1 ds @ ''.'' @ drop 1 ds @ ''e'' @ es))"

fun Number_toString :: "js_number \<Rightarrow> string" where
  "Number_toString NumNaN = ''NaN''"
| "Number_toString (NumInfinity neg) = (if neg then ''-Infinity'' else ''Infinity'')"
| "Number_toString (NumFinite neg s n) =
     (if s = 0 then ''0''
      else (if neg then ''-'' else '''') @ digits_toString s n)"

text \<open>
  The values a cell expression can meet: \<open>undefined\<close>, the JSON scalars, and what a
  row inherits from \<open>Object.prototype\<close>, namely built-in functions (\<open>JFun\<close>, with the
  function's name) and, under \<open>__proto__\<close>, the prototype object itself.
\<close>

datatype js_value =
    JUndefined
  | JNull
  | JBool bool
  | JNum js_number
  | JStr string
  | JFun string
  | JProto

text \<open>
  \<open>String(v)\<close>. The text of a built-in function is the one V8 prints; engines differ
  in its white space only.
\<close>

fun String_js :: "js_value \<Rightarrow> string" where
  "String_js JUndefined = ''undefined''"
| "String_js JNull = ''null''"
| "String_js (JBool b) = (if b then ''true'' else ''false'')"
| "String_js (JNum x) = Number_toString x"
| "String_js (JStr s) = s"
| "String_js (JFun name) = ''function '' @ name @ ''() { [native code] }''"
| "String_js JProto = ''[object Object]''"


text \<open>\<open>a ?? b\<close>: the right operand exactly when the left one is \<open>null\<close> or \<open>undefined\<close>.\<close>

fun nullish :: "js_value \<Rightarrow> js_value \<Rightarrow> js_value" where
  "nullish JUndefined b = b"
| "nullish JNull b = b"
| "nullish a b = a"

text \<open>
  The properties of \<open>Object.prototype\<close>, which every object made by \<open>JSON.parse\<close>
  inherits: the constructor \<open>Object\<close>, the built-in methods, and the accessor
  \<open>__proto__\<close>, which yields the prototype.
\<close>

definition object_prototype :: "string \<Rightarrow> js_value option" where
  "object_prototype =
     map_of
       [(''constructor'', JFun ''Object''),
        (''__defineGetter__'', JFun ''__defineGetter__''),
        (''__defineSetter__'', JFun ''__defineSetter__''),
        (''hasOwnProperty'', JFun ''hasOwnProperty''),
        (''__lookupGetter__'', JFun ''__lookupGetter__''),
        (''__lookupSetter__'', JFun ''__lookupSetter__''),
        (''isPrototypeOf'', JFun ''isPrototypeOf''),
        (''propertyIsEnumerable'', JFun ''propertyIsEnumerable''),
        (''toString'', JFun ''toString''),
        (''valueOf'', JFun ''valueOf''),
        (''__proto__'', JProto),
        (''toLocaleString'', JFun ''toLocaleString'')]"

text \<open>
  A row is a JSON object: its own properties in key order, keys distinct.
  \<open>row[col]\<close> is the value of the row's own property of that name; when the row has
  none, it is what the row inherits under that name, and \<open>undefined\<close> when it
  inherits nothing.
\<close>

type_synonym row = "(string \<times> js_value) list"

definition get_prop :: "row \<Rightarrow> string \<Rightarrow> js_value" where
  "get_prop r k =
     (case map_of r k of
        Some v \<Rightarrow> v
      | None \<Rightarrow> (case object_prototype k of Some v \<Rightarrow> v | None \<Rightarrow> JUndefined))"

text \<open>An optional, nullable field of the payload: \<open>f?: T | null\<close>.\<close>

datatype 'a nullable = Absent | IsNull | Val 'a

subsection \<open>The payload and the component's state\<close>

text \<open>
  \<open>interface ApiResponse\<close> (lines 4-10), for a payload that is an object. The payload
  is never checked against the interface, so each declared field may be missing from
  the object (\<open>None\<close>); a field that is there has its declared type.
\<close>

record api_response =
  sql :: "string option"
  rows :: "row list option"
  columns :: "string list option"
  raw_answer :: "string nullable"
  summary :: "string nullable"



text \<open>
  The five \<open>useState\<close> hooks of lines 13-17; \<open>'r\<close> is the payload type. \<open>handleSubmit\<close>
  never looks into the payload, so it is embedded for every \<open>'r\<close>; the tests of lines
  100 and 104 do, and are embedded at \<open>payload\<close>. In \<open>response\<close>, \<open>None\<close> is the \<open>null\<close>
  the hook starts with and \<open>setResponse(null)\<close> stores; \<open>Some d\<close> is the value \<open>d\<close>
  stored by \<open>setResponse\<close>, among them \<open>PValue JNull\<close> for a body that parses to
  \<open>null\<close>, which no test of the component tells from \<open>None\<close>.
\<close>

record 'r app_state =
  dbPath :: string
  question :: string
  loading :: bool
  error :: "string option"
  response :: "'r option"

definition initial_state :: "'r app_state" where
  "initial_state =
     \<lparr>dbPath = ''C'' @ [CHR 0x5C, CHR 0x5C] @ ''Users'' @ [CHR 0x5C, CHR 0x5C]
                @ ''GenAIKOCVISUSR53'' @ [CHR 0x5C, CHR 0x5C] @ ''Documents''
                @ [CHR 0x5C, CHR 0x5C] @ ''hackathon'' @ [CHR 0x5C, CHR 0x5C] @ ''sample.db'',
      question = ''Show all customers with their total order amount, sorted by total amount descending'',
      loading = False, error = None, response = None\<rparr>"

subsection \<open>The network boundary\<close>

text \<open>The one call of lines 26-37: \<open>fetch('/api/nl-query', {method, headers, body})\<close>.\<close>

record request =
  url :: string
  http_method :: string
  content_type :: string
  req_db_path :: string
  req_question :: string
  req_dialect :: string
  req_max_tokens :: nat

text \<open>
  A thrown value, as far as the handler looks at it: its \<open>message\<close> property,
  \<open>None\<close> when that is \<open>undefined\<close> or \<open>null\<close>.
\<close>

datatype js_error = JsError (message: "string option")

text \<open>
  A \<open>Response\<close>: its status, and what \<open>res.text()\<close> and \<open>res.json()\<close> settle to
  (either may reject). \<open>res.ok\<close> is a status in the range 200-299.
\<close>

record 'r http_response =
  status :: nat
  text_result :: "js_error + string"
  json_result :: "js_error + 'r"

definition ok :: "'r http_response \<Rightarrow> bool" where
  "ok res = (200 \<le> status res \<and> status res \<le> 299)"

datatype 'r fetch_outcome = Rejected js_error | Resolved "'r http_response"

subsection \<open>\<open>handleSubmit\<close>\<close>

text \<open>
  Lines 20-37, up to the \<open>await\<close>: three state updates, then the call is issued.
  Nothing is checked before the call.
\<close>

definition handleSubmit_start :: "'r app_state \<Rightarrow> 'r app_state \<times> request" where
  "handleSubmit_start s =
     (s\<lparr>loading := True, error := None, response := None\<rparr>,
      \<lparr>url = ''/api/nl-query'', http_method = ''POST'',
       content_type = ''application/json'',
       req_db_path = dbPath s, req_question = question s,
       req_dialect = ''sqlite'', req_max_tokens = 512\<rparr>)"

text \<open>
  The \<open>try\<close> block after the \<open>await\<close> (lines 26-45): \<open>Inl\<close> is the value thrown,
  \<open>Inr\<close> the payload handed to \<open>setResponse\<close>.
\<close>

definition handleSubmit_try :: "'r fetch_outcome \<Rightarrow> js_error + 'r" where
  "handleSubmit_try out =
     (case out of
        Rejected e \<Rightarrow> Inl e
      | Resolved res \<Rightarrow>
          if \<not> ok res then
            (case text_result res of
               Inl e \<Rightarrow> Inl e
             | Inr txt \<Rightarrow>
                 Inl (JsError (Some (if txt \<noteq> [] then txt
                    else ''Request failed with status '' @ string_of_nat (status res)))))
          else
            (case json_result res of
               Inl e \<Rightarrow> Inl e
             | Inr data \<Rightarrow> Inr data))"

text \<open>Line 47: \<open>err.message ?? 'Unknown error'\<close>.\<close>

definition error_message :: "js_error \<Rightarrow> string" where
  "error_message err = (case message err of None \<Rightarrow> ''Unknown error'' | Some m \<Rightarrow> m)"

text \<open>
  The continuation as a whole (lines 38-50): \<open>setResponse\<close> on success, the
  \<open>catch\<close>, and the \<open>finally\<close>.
\<close>

definition handleSubmit_settle :: "'r fetch_outcome \<Rightarrow> 'r app_state \<Rightarrow> 'r app_state" where
  "handleSubmit_settle out s =
     (case handleSubmit_try out of
        Inr data \<Rightarrow> s\<lparr>response := Some data, loading := False\<rparr>
      | Inl err \<Rightarrow> s\<lparr>error := Some (error_message err), loading := False\<rparr>)"

subsection \<open>Events\<close>

text \<open>
  The component reacts to four events: the two \<open>onChange\<close> handlers, a call of
  \<open>handleSubmit\<close>, and the settling of a call issued earlier. A world is the
  component's state together with the calls issued so far (oldest first) and the
  positions of those whose promise has settled. The handler carries no identifier
  of its own: which call a reply belongs to is known to the promise only, so the
  position \<open>k\<close> of \<open>Settle k out\<close> selects the promise and has no other effect.
  A promise settles once: settling a call that was never issued, or a second time,
  cannot happen and leaves the world as it is.
\<close>

datatype 'r event =
    SetDbPath string
  | SetQuestion string
  | Submit
  | Settle nat "'r fetch_outcome"

record 'r world =
  ui :: "'r app_state"
  calls :: "request list"
  settled :: "nat list"

definition init_world :: "'r app_state \<Rightarrow> 'r world" where
  "init_world s = \<lparr>ui = s, calls = [], settled = []\<rparr>"

fun step :: "'r world \<Rightarrow> 'r event \<Rightarrow> 'r world" where
  "step w (SetDbPath v) = w\<lparr>ui := (ui w)\<lparr>dbPath := v\<rparr>\<rparr>"
| "step w (SetQuestion v) = w\<lparr>ui := (ui w)\<lparr>question := v\<rparr>\<rparr>"
| "step w Submit =
     (case handleSubmit_start (ui w) of
        (s', req) \<Rightarrow> w\<lparr>ui := s', calls := calls w @ [req]\<rparr>)"
| "step w (Settle k out) =
     (if k < length (calls w) \<and> k \<notin> set (settled w)
      then w\<lparr>ui := handleSubmit_settle out (ui w), settled := k # settled w\<rparr>
      else w)"

definition run :: "'r world \<Rightarrow> 'r event list \<Rightarrow> 'r world" where
  "run w evs = foldl step w evs"


subsection \<open>The view\<close>

text \<open>Line 90: the submit control is disabled while \<open>loading\<close>.\<close>

definition submit_disabled :: "'r app_state \<Rightarrow> bool" where
  "submit_disabled s = loading s"

text \<open>Line 95: \<open>error && <div>{error}</div>\<close>; the empty string is falsy.\<close>

definition error_banner :: "'r app_state \<Rightarrow> string option" where
  "error_banner s =
     (case error s of None \<Rightarrow> None | Some e \<Rightarrow> if e \<noteq> [] then Some e else None)"




text \<open>Line 128: \<open>String((row as any)[col] ?? '')\<close>.\<close>

definition cell :: "row \<Rightarrow> string \<Rightarrow> string" where
  "cell r col = String_js (nullish (get_prop r col) (JStr ''''))"

text \<open>Lines 125-131: one \<open>tr\<close> per row, in it one \<open>td\<close> per column.\<close>

definition tbody :: "string list \<Rightarrow> row list \<Rightarrow> string list list" where
  "tbody cols rs = map (\<lambda>r. map (\<lambda>col. cell r col) cols) rs"

text \<open>
  Lines 113-134. Reading \<open>.length\<close> or \<open>.map\<close> of a field that is missing throws a
  \<open>TypeError\<close> while rendering.
\<close>

datatype render_error = TypeError

datatype table_view =
    NoRows
  | Table (thead: "string list") (body: "string list list")

definition rows_view :: "api_response \<Rightarrow> render_error + table_view" where
  "rows_view r =
     (case rows r of
        None \<Rightarrow> Inl TypeError
      | Some rs \<Rightarrow>
          if length rs = 0 then Inr NoRows
          else (case columns r of
                  None \<Rightarrow> Inl TypeError
                | Some cols \<Rightarrow> Inr (Table (map (\<lambda>col. col) cols) (tbody cols rs))))"

text \<open>Every \<open>th\<close> and \<open>td\<close> of the view, in document order.\<close>

fun grid_cells :: "table_view \<Rightarrow> string list" where
  "grid_cells NoRows = []"
| "grid_cells (Table h g) = h @ concat g"

text \<open>
  Lines 137-144: \<open>response.summary && ...\<close>. The result is the text handed to
  \<open>ReactMarkdown\<close>, \<open>None\<close> when the block is not rendered.
\<close>

definition summary_view :: "api_response \<Rightarrow> string option" where
  "summary_view r =
     (case summary r of
        Absent \<Rightarrow> None
      | IsNull \<Rightarrow> None
      | Val s \<Rightarrow> if s \<noteq> [] then Some s else None)"

subsection \<open>Trimming, as the specification uses it\<close>

text \<open>
  The component never trims. \<open>spec_trim\<close> is the specification's "after trimming"
  (\<open>String.prototype.trim\<close> on ASCII text), needed only to state what the
  specification asks for.
\<close>

definition is_space :: "char \<Rightarrow> bool" where
  "is_space c = (c \<in> set [CHR 0x20, CHR 0x09, CHR 0x0A, CHR 0x0B, CHR 0x0C, CHR 0x0D])"

definition spec_trim :: "string \<Rightarrow> string" where
  "spec_trim s = rev (dropWhile is_space (rev (dropWhile is_space s)))"

subsection \<open>Sample data\<close>

text \<open>A reply with status 200 whose body parses to the payload \<open>d\<close>.\<close>

definition reply_ok :: "'r \<Rightarrow> 'r fetch_outcome" where
  "reply_ok d = Resolved \<lparr>status = 200, text_result = Inr [], json_result = Inr d\<rparr>"

text \<open>A reply with a status outside 200-299 and the plain-text body \<open>txt\<close>.\<close>

definition reply_failed :: "nat \<Rightarrow> string \<Rightarrow> 'r fetch_outcome" where
  "reply_failed code txt =
     Resolved \<lparr>status = code, text_result = Inr txt,
       json_result = Inl (JsError (Some ''Unexpected token''))\<rparr>"

text \<open>The specification's example: \<open>columns=["a","b"], rows=[{"a":1,"b":null},{"a":2}]\<close>.\<close>

definition sample_payload :: api_response where
  "sample_payload =
     \<lparr>sql = Some ''SELECT a, b FROM t'',
      rows = Some [[(''a'', JNum (NumFinite False 1 1)), (''b'', JNull)],
                   [(''a'', JNum (NumFinite False 2 1))]],
      columns = Some [''a'', ''b''],
      raw_answer = Absent, summary = IsNull\<rparr>"

text \<open>A payload with no \<open>columns\<close> field: \<open>{"sql": "SELECT 1", "rows": []}\<close>.\<close>

definition payload_without_columns :: api_response where
  "payload_without_columns =
     \<lparr>sql = Some ''SELECT 1'', rows = Some [], columns = None,
      raw_answer = Absent, summary = Absent\<rparr>"

text \<open>
  A payload with a column named like an inherited property, which its row does not
  have: \<open>{"sql": "SELECT 1 AS a", "columns": ["a", "constructor"], "rows": [{"a": 1}]}\<close>.
\<close>

definition payload_inherited_column :: api_response where
  "payload_inherited_column =
     \<lparr>sql = Some ''SELECT 1 AS a'',
      rows = Some [[(''a'', JNum (NumFinite False 1 1))]],
      columns = Some [''a'', ''constructor''],
      raw_answer = Absent, summary = Absent\<rparr>"

section \<open>Properties\<close>





lemma object_prototype_values:
  assumes "object_prototype k = Some v"
  shows "v \<noteq> JNull \<and> v \<noteq> JUndefined \<and> String_js v \<noteq> []"
  using assms by (auto simp: object_prototype_def split: if_splits)

lemma nullish_String:
  "String_js (nullish v (JStr '''')) =
     (if v = JNull \<or> v = JUndefined then '''' else String_js v)"
  by (cases v) simp_all

lemma cell_lookup:
  "cell r col =
     (case map_of r col of
        Some v \<Rightarrow> if v = JNull \<or> v = JUndefined then '''' else String_js v
      | None \<Rightarrow> (case object_prototype col of None \<Rightarrow> '''' | Some v \<Rightarrow> String_js v))"
  using object_prototype_values [of col]
  by (auto simp: cell_def get_prop_def nullish_String split: option.split)

lemma cell_key_order:
  assumes "distinct (map fst r)" and "distinct (map fst r')" and "set r' = set r"
  shows "cell r' col = cell r col"
proof -
  from assms have "map_of r' = map_of r"
    by (simp add: map_of_inject_set)
  then show ?thesis by (simp add: cell_def get_prop_def)
qed

lemma tbody_key_order:
  assumes "length rs' = length rs"
    and "\<forall>i < length rs. distinct (map fst (rs ! i)) \<and> distinct (map fst (rs' ! i))
           \<and> set (rs' ! i) = set (rs ! i)"
  shows "tbody cols rs' = tbody cols rs"
  unfolding tbody_def
proof (rule nth_equalityI)
  show "length (map (\<lambda>r. map (cell r) cols) rs') = length (map (\<lambda>r. map (cell r) cols) rs)"
    using assms(1) by simp
next
  fix i assume "i < length (map (\<lambda>r. map (cell r) cols) rs')"
  then have i: "i < length rs" using assms(1) by simp
  with assms(2) have "cell (rs' ! i) col = cell (rs ! i) col" for col
    by (simp add: cell_key_order)
  with i assms(1) show "map (\<lambda>r. map (cell r) cols) rs' ! i = map (\<lambda>r. map (cell r) cols) rs ! i"
    by simp
qed

lemma tbody_grid:
  "length (tbody cols rs) = length rs
   \<and> (\<forall>i < length rs. length (tbody cols rs ! i) = length cols
        \<and> (\<forall>j < length cols. tbody cols rs ! i ! j =
              (case map_of (rs ! i) (cols ! j) of
                 Some v \<Rightarrow> if v = JNull \<or> v = JUndefined then '''' else String_js v
               | None \<Rightarrow> (case object_prototype (cols ! j) of
                            None \<Rightarrow> ''''
                          | Some v \<Rightarrow> String_js v))))
   \<and> rows_view (r\<lparr>rows := Some rs, columns := Some cols\<rparr>)
       = (if rs = [] then Inr NoRows else Inr (Table cols (tbody cols rs)))"
  by (simp add: tbody_def rows_view_def cell_lookup)

lemma sample_payload_grid:
  "rows_view sample_payload = Inr (Table [''a'', ''b''] [[''1'', ''''], [''2'', '''']])"
  by (simp add: rows_view_def tbody_def cell_lookup sample_payload_def object_prototype_def
      digits_toString_def string_of_nat.simps)

lemma tbody_no_columns: "tbody [] rs = replicate (length rs) []"
  by (simp add: tbody_def map_replicate_const)

text \<open>
  C4 (the code departs from it). The grid is as the specification says, \<open>m \<times> n\<close> and in
  the order of \<open>columns\<close> (\<open>tbody_grid\<close>, \<open>sample_payload_grid\<close>), but not every key a
  row lacks renders as the empty string: \<open>row[col]\<close> also finds what the row inherits.
  With \<open>columns = ["a", "constructor"]\<close> and the one row \<open>{"a": 1}\<close>, which has no key
  \<open>constructor\<close>, the second cell is the text of the function \<open>Object\<close>.
\<close>

theorem inherited_column_not_blank:
  "map_of [(''a'', JNum (NumFinite False 1 1))] ''constructor'' = None
   \<and> rows_view payload_inherited_column
       = Inr (Table [''a'', ''constructor'']
                [[''1'', ''function Object() { [native code] }'']])"
  by (simp add: rows_view_def tbody_def cell_lookup payload_inherited_column_def
      object_prototype_def digits_toString_def string_of_nat.simps)

text \<open>
  C5. When \<open>rows\<close> is empty the renderer shows the "No rows returned." placeholder
  and no table, whatever \<open>columns\<close> is (empty, non-empty, even missing).
\<close>

theorem empty_rows_placeholder:
  "rows_view (r\<lparr>rows := Some [], columns := cs\<rparr>) = Inr NoRows"
  by (simp add: rows_view_def)

text \<open>
  C6. For a reply whose status is outside 200-299 and whose body text can be read, the
  error stored and shown in the banner is the body verbatim when it is non-empty, and
  \<open>Request failed with status <code>\<close> otherwise; the response is left as it was.
\<close>

theorem non_2xx_error_message:
  assumes "\<not> ok res" and "text_result res = Inr txt"
  shows "error (handleSubmit_settle (Resolved res) s)
           = Some (if txt \<noteq> [] then txt
                   else ''Request failed with status '' @ string_of_nat (status res))
         \<and> error_banner (handleSubmit_settle (Resolved res) s)
           = error (handleSubmit_settle (Resolved res) s)
         \<and> response (handleSubmit_settle (Resolved res) s) = response s
         \<and> \<not> loading (handleSubmit_settle (Resolved res) s)"
  using assms
  by (simp add: handleSubmit_settle_def handleSubmit_try_def error_message_def error_banner_def)

theorem non_2xx_error_message_witness:
  "\<not> ok \<lparr>status = 404, text_result = Inr ''db not found'',
           json_result = (Inl (JsError (Some ''Unexpected token'')) :: js_error + api_response)\<rparr>
   \<and> error (handleSubmit_settle (reply_failed 404 ''db not found'')
        (initial_state :: api_response app_state)) = Some ''db not found''
   \<and> error_banner (handleSubmit_settle (reply_failed 404 ''db not found'')
        (initial_state :: api_response app_state)) = Some ''db not found''
   \<and> error_banner (handleSubmit_settle (reply_failed 500 [])
        (initial_state :: api_response app_state)) = Some ''Request failed with status 500''"
  using non_2xx_error_message [of "\<lparr>status = 404, text_result = Inr ''db not found'',
           json_result = (Inl (JsError (Some ''Unexpected token'')) :: js_error + api_response)\<rparr>" "''db not found''" initial_state]
    non_2xx_error_message [of "\<lparr>status = 500, text_result = Inr [],
           json_result = (Inl (JsError (Some ''Unexpected token'')) :: js_error + api_response)\<rparr>" "[]" initial_state]
  by (simp add: ok_def reply_failed_def string_of_nat.simps)

text \<open>
  C9. When \<open>columns\<close> is empty and \<open>rows\<close> is not, rendering does not fail and the
  table has no cell at all: an empty header row and one empty body row per row.
\<close>

theorem empty_columns_no_cells:
  assumes "rs \<noteq> []"
  shows "rows_view (r\<lparr>rows := Some rs, columns := Some []\<rparr>)
           = Inr (Table [] (replicate (length rs) []))
         \<and> (\<exists>v. rows_view (r\<lparr>rows := Some rs, columns := Some []\<rparr>) = Inr v
                \<and> grid_cells v = [])"
  using assms by (simp add: rows_view_def tbody_no_columns)

theorem empty_columns_no_cells_witness:
  "[[(''a'', JNum (NumFinite False 1 1))], []] \<noteq> ([] :: row list)
   \<and> rows_view (sample_payload\<lparr>rows := Some [[(''a'', JNum (NumFinite False 1 1))], []], columns := Some []\<rparr>)
       = Inr (Table [] [[], []])"
  using empty_columns_no_cells [of "[[(''a'', JNum (NumFinite False 1 1))], []]" sample_payload]
  by (simp add: numeral_2_eq_2)






lemma settle_not_loading: "\<not> loading (handleSubmit_settle out s)"
  by (simp add: handleSubmit_settle_def split: sum.split)

lemma settle_response:
  "response (handleSubmit_settle out s)
     = (case handleSubmit_try out of Inl e \<Rightarrow> response s | Inr d \<Rightarrow> Some d)"
  by (simp add: handleSubmit_settle_def split: sum.split)

lemma settle_error:
  "error (handleSubmit_settle out s)
     = (case handleSubmit_try out of Inl e \<Rightarrow> Some (error_message e) | Inr d \<Rightarrow> error s)"
  by (simp add: handleSubmit_settle_def split: sum.split)



lemma missing_columns_render:
  "rows_view (r\<lparr>rows := Some (x # xs), columns := None\<rparr>) = Inl TypeError"
  by (simp add: rows_view_def)

text \<open>
  C1 (as the specification states it, refuted). Two submissions are issued before
  either settles, the first asking \<open>q1\<close>, the later one \<open>q2\<close>. When the reply to the
  later one arrives first, the reply to the earlier one is applied after it and the
  final state shows the answer to \<open>q1\<close>: the stale reply is not discarded. When the
  earlier one succeeds and the later one fails, in issue order, the final state shows
  both the stale answer and the error. When both fail and the later reply arrives
  first, the final state shows the earlier submission's error.
\<close>

theorem stale_reply_overwrites:
  "map req_question (calls (run (init_world (initial_state :: string app_state))
      [SetQuestion ''q1'', Submit, SetQuestion ''q2'', Submit,
       Settle 1 (reply_ok ''answer to q2''), Settle 0 (reply_ok ''answer to q1'')]))
     = [''q1'', ''q2'']
   \<and> response (ui (run (init_world (initial_state :: string app_state))
      [SetQuestion ''q1'', Submit, SetQuestion ''q2'', Submit,
       Settle 1 (reply_ok ''answer to q2''), Settle 0 (reply_ok ''answer to q1'')]))
     = Some ''answer to q1''
   \<and> response (ui (run (init_world (initial_state :: string app_state))
      [SetQuestion ''q1'', Submit, SetQuestion ''q2'', Submit,
       Settle 0 (reply_ok ''answer to q1''), Settle 1 (reply_failed 500 ''boom'')]))
     = Some ''answer to q1''
   \<and> error (ui (run (init_world (initial_state :: string app_state))
      [SetQuestion ''q1'', Submit, SetQuestion ''q2'', Submit,
       Settle 0 (reply_ok ''answer to q1''), Settle 1 (reply_failed 500 ''boom'')]))
     = Some ''boom''
   \<and> error (ui (run (init_world (initial_state :: string app_state))
      [SetQuestion ''q1'', Submit, SetQuestion ''q2'', Submit,
       Settle 1 (reply_failed 500 ''q2 failed''), Settle 0 (reply_failed 404 ''q1 failed'')]))
     = Some ''q1 failed''"
  by (simp add: run_def init_world_def handleSubmit_start_def handleSubmit_settle_def
      handleSubmit_try_def reply_ok_def reply_failed_def ok_def error_message_def)

text \<open>
  C1 (amended). There is no sequence identifier and no reply is discarded: each reply
  is applied when it arrives, a success overwriting \<open>response\<close> and a failure
  overwriting \<open>error\<close>. After two overlapping submissions the final state holds the
  payload of the last success to arrive and the message of the last failure to arrive,
  whichever submission they answer, and it is never left loading. The only guard
  against overlapping submissions is the submit control, disabled while loading.
\<close>

theorem replies_applied_on_arrival:
  "ui (run (init_world s) [Submit, Submit, Settle 0 a, Settle 1 b])
     = handleSubmit_settle b (handleSubmit_settle a (fst (handleSubmit_start s)))
   \<and> ui (run (init_world s) [Submit, Submit, Settle 1 b, Settle 0 a])
     = handleSubmit_settle a (handleSubmit_settle b (fst (handleSubmit_start s)))
   \<and> response (handleSubmit_settle y (handleSubmit_settle x (fst (handleSubmit_start s))))
     = (case handleSubmit_try y of
          Inr d \<Rightarrow> Some d
        | Inl e \<Rightarrow> (case handleSubmit_try x of Inr d \<Rightarrow> Some d | Inl e' \<Rightarrow> None))
   \<and> error (handleSubmit_settle y (handleSubmit_settle x (fst (handleSubmit_start s))))
     = (case handleSubmit_try y of
          Inl e \<Rightarrow> Some (error_message e)
        | Inr d \<Rightarrow> (case handleSubmit_try x of Inl e \<Rightarrow> Some (error_message e) | Inr d' \<Rightarrow> None))
   \<and> \<not> loading (handleSubmit_settle y (handleSubmit_settle x (fst (handleSubmit_start s))))
   \<and> submit_disabled (ui (run (init_world s) [Submit]))"
proof -
  have "ui (run (init_world s) [Submit, Submit, Settle 0 a, Settle 1 b])
     = handleSubmit_settle b (handleSubmit_settle a (fst (handleSubmit_start s)))"
    by (simp add: run_def init_world_def handleSubmit_start_def)
  moreover have "ui (run (init_world s) [Submit, Submit, Settle 1 b, Settle 0 a])
     = handleSubmit_settle a (handleSubmit_settle b (fst (handleSubmit_start s)))"
    by (simp add: run_def init_world_def handleSubmit_start_def)
  moreover have "response (handleSubmit_settle y (handleSubmit_settle x (fst (handleSubmit_start s))))
     = (case handleSubmit_try y of
          Inr d \<Rightarrow> Some d
        | Inl e \<Rightarrow> (case handleSubmit_try x of Inr d \<Rightarrow> Some d | Inl e' \<Rightarrow> None))"
    by (simp add: settle_response handleSubmit_start_def split: sum.split)
  moreover have "error (handleSubmit_settle y (handleSubmit_settle x (fst (handleSubmit_start s))))
     = (case handleSubmit_try y of
          Inl e \<Rightarrow> Some (error_message e)
        | Inr d \<Rightarrow> (case handleSubmit_try x of Inl e \<Rightarrow> Some (error_message e) | Inr d' \<Rightarrow> None))"
    by (simp add: settle_error handleSubmit_start_def split: sum.split)
  moreover have "submit_disabled (ui (run (init_world s) [Submit]))"
    by (simp add: run_def init_world_def handleSubmit_start_def submit_disabled_def)
  ultimately show ?thesis
    using settle_not_loading by blast
qed

text \<open>
  C2 (as the specification states it, refuted). With a blank locator and an empty
  question the handler raises no validation error and issues the network call.
\<close>

theorem empty_question_is_sent:
  "spec_trim '''' = '''' \<and> spec_trim ''  '' = ''''
   \<and> calls (run (init_world (initial_state :: api_response app_state))
         [SetDbPath ''  '', SetQuestion '''', Submit])
       = [\<lparr>url = ''/api/nl-query'', http_method = ''POST'',
           content_type = ''application/json'',
           req_db_path = ''  '', req_question = '''',
           req_dialect = ''sqlite'', req_max_tokens = 512\<rparr>]
   \<and> error (ui (run (init_world (initial_state :: api_response app_state))
         [SetDbPath ''  '', SetQuestion '''', Submit])) = None
   \<and> loading (ui (run (init_world (initial_state :: api_response app_state))
         [SetDbPath ''  '', SetQuestion '''', Submit]))"
  by (simp add: spec_trim_def is_space_def run_def init_world_def handleSubmit_start_def
      initial_state_def)

text \<open>
  C2 (amended). Submission validates nothing: whatever the two fields hold, also when
  they are empty or blank, it sets no error, clears the response, turns \<open>loading\<close> on
  and issues exactly one call, which carries both fields as they are together with
  the dialect \<open>sqlite\<close> and \<open>max_tokens\<close> 512.
\<close>

theorem submit_always_calls:
  "calls (step w Submit)
     = calls w @ [\<lparr>url = ''/api/nl-query'', http_method = ''POST'',
                   content_type = ''application/json'',
                   req_db_path = dbPath (ui w), req_question = question (ui w),
                   req_dialect = ''sqlite'', req_max_tokens = 512\<rparr>]
   \<and> error (ui (step w Submit)) = None
   \<and> response (ui (step w Submit)) = None
   \<and> loading (ui (step w Submit))"
  by (simp add: handleSubmit_start_def)

text \<open>
  C3 (as the specification states it, refuted). A reply with status 200 whose payload
  has no \<open>columns\<close> field is stored as the response and no error is set; the response
  displayed before the submission was already cleared at submit.
\<close>

theorem missing_columns_accepted:
  "ui (run (init_world (initial_state\<lparr>response := Some sample_payload\<rparr>))
         [Submit, Settle 0 (reply_ok payload_without_columns)])
     = initial_state\<lparr>response := Some payload_without_columns\<rparr>
   \<and> columns payload_without_columns = None
   \<and> payload_without_columns \<noteq> sample_payload
   \<and> response (ui (run (init_world (initial_state\<lparr>response := Some sample_payload\<rparr>)) [Submit]))
       = None"
  by (simp add: run_def init_world_def handleSubmit_start_def handleSubmit_settle_def
      handleSubmit_try_def reply_ok_def ok_def initial_state_def payload_without_columns_def
      sample_payload_def)

text \<open>
  C3 (amended). For a reply with a status in 200-299 the payload that \<open>res.json()\<close>
  yields is stored as the response without any check, also when \<open>columns\<close> is
  missing, and no error is set; an error is set only when \<open>res.json()\<close> itself
  rejects, and then it is that rejection's message. In both cases the response and
  error displayed before were cleared at submit.
\<close>

theorem payload_stored_unchecked:
  assumes "ok res"
  shows "(json_result res = Inr data \<longrightarrow>
            handleSubmit_settle (Resolved res) s = s\<lparr>response := Some data, loading := False\<rparr>)
       \<and> (json_result res = Inl e \<longrightarrow>
            handleSubmit_settle (Resolved res) s
              = s\<lparr>error := Some (error_message e), loading := False\<rparr>)
       \<and> response (fst (handleSubmit_start s)) = None
       \<and> error (fst (handleSubmit_start s)) = None"
  using assms by (simp add: handleSubmit_settle_def handleSubmit_try_def handleSubmit_start_def)

theorem payload_stored_unchecked_witness:
  "ok \<lparr>status = 200, text_result = Inr [], json_result = (Inr payload_without_columns :: js_error + api_response)\<rparr>
   \<and> handleSubmit_settle (reply_ok payload_without_columns) (fst (handleSubmit_start initial_state))
       = initial_state\<lparr>response := Some payload_without_columns\<rparr>"
  using payload_stored_unchecked [of "\<lparr>status = 200, text_result = Inr [],
      json_result = (Inr payload_without_columns :: js_error + api_response)\<rparr>"
      payload_without_columns "fst (handleSubmit_start initial_state)"]
  by (simp add: ok_def reply_ok_def handleSubmit_start_def initial_state_def)

text \<open>
  C7 (as the specification states it, refuted). A summary of two spaces is empty after
  trimming, and its block is rendered all the same.
\<close>

theorem blank_summary_rendered:
  "spec_trim ''  '' = ''''
   \<and> summary_view (sample_payload\<lparr>summary := Val ''  ''\<rparr>) = Some ''  ''"
  by (simp add: spec_trim_def is_space_def summary_view_def)

text \<open>
  C7 (amended). The summary block is rendered exactly when \<open>summary\<close> is present, not
  \<open>null\<close> and not the empty string, and then with the text as it is: nothing is
  trimmed. When \<open>summary\<close> is absent, \<open>null\<close> or empty nothing is rendered, and no
  case raises an error.
\<close>

theorem summary_rendered_iff_nonempty:
  "(summary_view r \<noteq> None \<longleftrightarrow> (\<exists>s. summary r = Val s \<and> s \<noteq> []))
   \<and> (\<forall>s. summary_view r = Some s \<longleftrightarrow> summary r = Val s \<and> s \<noteq> [])
   \<and> summary_view (r\<lparr>summary := Absent\<rparr>) = None
   \<and> summary_view (r\<lparr>summary := IsNull\<rparr>) = None
   \<and> summary_view (r\<lparr>summary := Val []\<rparr>) = None"
  by (cases "summary r") (auto simp: summary_view_def)




end
